theory Spec2Isabelle
  imports Main "HOL-Library.Multiset" "HOL-Library.Word"
begin

section \<open>Build tag history (components/ArtifactDetailedInfo.tsx)\<close>

subsection \<open>Data\<close>

text \<open>
  The values that \<open>HistoryList\<close> hands to lodash's \<open>_.every\<close>: an optional number
  or an optional string. A missing field (\<open>undefined\<close> or \<open>null\<close>) is \<open>JSNil\<close>;
  numbers are the integers of the unix timestamps and person ids.
\<close>

datatype js_value = JSNil | JSNumber int | JSString string

text \<open>JavaScript truthiness on these values: nil, the number 0 and the empty string are falsy.\<close>

fun truthy :: "js_value \<Rightarrow> bool" where
  "truthy JSNil = False"
| "truthy (JSNumber n) = (n \<noteq> 0)"
| "truthy (JSString s) = (s \<noteq> [])"

text \<open>\<open>_.every(collection)\<close> with the default identity predicate.\<close>

definition every :: "js_value list \<Rightarrow> bool" where
  "every vs = list_all truthy vs"

definition js_number :: "int option \<Rightarrow> js_value" where
  "js_number x = (case x of None \<Rightarrow> JSNil | Some n \<Rightarrow> JSNumber n)"

definition js_string :: "string option \<Rightarrow> js_value" where
  "js_string x = (case x of None \<Rightarrow> JSNil | Some s \<Rightarrow> JSString s)"

text \<open>
  \<open>KojiBuildTagging\<close>: the fields of a tagging record that \<open>HistoryList\<close> reads.
  The three revoke fields are optional.
\<close>

record KojiBuildTagging =
  active :: bool
  create_ts :: int
  creator_id :: int
  creator_name :: string
  revoke_ts :: "int option"
  revoker_id :: "int option"
  revoker_name :: "string option"
  tag_name :: string

record TagActionHistoryType =
  action :: string
  active :: bool
  person_id :: int
  person_name :: string
  tag_name :: string
  time :: int

subsection \<open>HistoryList\<close>

text \<open>The two object literals pushed by the loop body.\<close>

definition tagged_line :: "KojiBuildTagging \<Rightarrow> TagActionHistoryType" where
  "tagged_line e =
     \<lparr>action = ''tagged into'',
      active = KojiBuildTagging.active e,
      person_id = creator_id e,
      person_name = creator_name e,
      tag_name = KojiBuildTagging.tag_name e,
      time = create_ts e\<rparr>"

definition untagged_line :: "KojiBuildTagging \<Rightarrow> TagActionHistoryType" where
  "untagged_line e =
     \<lparr>action = ''untagged from'',
      active = False,
      person_id = the (revoker_id e),
      person_name = the (revoker_name e),
      tag_name = KojiBuildTagging.tag_name e,
      time = the (revoke_ts e)\<rparr>"

text \<open>
  The body of \<open>_.forEach(history, (e) => ...)\<close>: \<open>lines\<close> is the array being
  pushed to, returned updated.
\<close>

definition forEach_body ::
  "TagActionHistoryType list \<Rightarrow> KojiBuildTagging \<Rightarrow> TagActionHistoryType list" where
  "forEach_body lines e =
     (let lines = lines @ [tagged_line e] in
      if every [js_number (revoke_ts e), js_string (revoker_name e), js_number (revoker_id e)]
      then lines @ [untagged_line e]
      else lines)"

definition history_lines :: "KojiBuildTagging list \<Rightarrow> TagActionHistoryType list" where
  "history_lines history = foldl forEach_body [] history"

text \<open>
  \<open>_.orderBy(lines, ['time'], ['asc'])\<close>: lodash sorts stably, ascending by the
  numeric \<open>time\<close> field.
\<close>

definition orderBy_time_asc :: "TagActionHistoryType list \<Rightarrow> TagActionHistoryType list" where
  "orderBy_time_asc lines = sort_key time lines"

definition history_log :: "KojiBuildTagging list \<Rightarrow> TagActionHistoryType list" where
  "history_log history = orderBy_time_asc (history_lines history)"

text \<open>
  \<open>HistoryListEntry\<close>: the text of the rendered line. The two moment.js formats
  of the local time (\<open>'YYYY-MM-DD, HH:mm'\<close> and \<open>'ZZ'\<close>) depend on the
  browser's time zone and are parameters.
\<close>

definition HistoryListEntry ::
  "(int \<Rightarrow> string) \<Rightarrow> (int \<Rightarrow> string) \<Rightarrow> TagActionHistoryType \<Rightarrow> string" where
  "HistoryListEntry eventTimeWithTz shift entry =
     (let flag = (if active entry then ''[still active]'' else '''') in
      eventTimeWithTz (time entry) @ '' '' @ shift (time entry) @ '' '' @ action entry
        @ '' '' @ tag_name entry @ '' by '' @ person_name entry @ '' '' @ flag)"

text \<open>
  \<open>HistoryList\<close>: nothing is rendered for a nil history; otherwise one line per
  entry of the sorted log (the list markup and the React keys are left out).
\<close>

definition HistoryList ::
  "(int \<Rightarrow> string) \<Rightarrow> (int \<Rightarrow> string) \<Rightarrow> KojiBuildTagging list option \<Rightarrow> string list option" where
  "HistoryList eventTimeWithTz shift history =
     (case history of
        None \<Rightarrow> None
      | Some h \<Rightarrow> Some (map (HistoryListEntry eventTimeWithTz shift) (history_log h)))"

text \<open>What one record contributes to \<open>lines\<close>: the loop body run on the empty array.\<close>

definition emitted :: "KojiBuildTagging \<Rightarrow> TagActionHistoryType list" where
  "emitted e = forEach_body [] e"

section \<open>Artifact search state (slices/artifactsSlice.ts)\<close>

subsection \<open>Data\<close>

text \<open>
  An artifact of the result list keeps three fields of a search hit. Their contents are
  opaque to the slice and are represented by their JSON text.
\<close>

type_synonym json = string

record Artifact =
  hit_info :: json
  hit_source :: json
  greenwaveDecision :: json

text \<open>A hit as the backend returns it: the three fields and whatever else the query selected.\<close>

record response_hit = Artifact +
  other_fields :: json

text \<open>
  A value of type \<open>any\<close>, as \<open>hits_info\<close> is declared in the state and as the
  backend's response delivers it: \<open>undefined\<close>, \<open>null\<close>, a boolean, a number (an
  integer count), a string, an array, or an object given by the list of its properties
  (of a key listed twice the last entry counts). \<open>JObject []\<close> is the empty object
  \<open>{}\<close>.
\<close>

datatype js_any =
    JUndefined
  | JNull
  | JBoolean bool
  | JNumber int
  | JString string
  | JArray "js_any list"
  | JObject "(string \<times> js_any) list"

text \<open>
  \<open>object[key]\<close> for the keys \<open>'total'\<close> and \<open>'value'\<close>. No prototype has
  a property of either name, so only an object that lists the key answers with a value.
\<close>

fun property :: "js_any \<Rightarrow> string \<Rightarrow> js_any" where
  "property (JObject kvs) k = (case map_of (rev kvs) k of None \<Rightarrow> JUndefined | Some v \<Rightarrow> v)"
| "property v k = JUndefined"

record artListPayload =
  hits :: "Artifact list"
  error :: "string option"
  hits_info :: js_any

text \<open>
  The state. \<open>totalHits\<close> is declared a number; it holds what the reducer assigns,
  which is a value of the response.
\<close>

record IStateArtifacts =
  error :: "string option"
  artList :: "Artifact list"
  hits_info :: js_any
  isLoading :: bool
  totalHits :: js_any
  isLoadingExtended :: bool

definition INITIAL_STATE :: IStateArtifacts where
  "INITIAL_STATE =
     \<lparr>error = None, artList = [], hits_info = JObject [], isLoading = False,
      totalHits = JNumber 0, isLoadingExtended = False\<rparr>"

subsection \<open>Reducers\<close>

text \<open>
  The loop of lodash's \<open>baseGet\<close>: it follows the keys of the path while the object
  is not nil, and gives \<open>undefined\<close> when it stops before the end of the path.
\<close>

fun baseGet :: "js_any \<Rightarrow> string list \<Rightarrow> js_any" where
  "baseGet object [] = object"
| "baseGet object (k # ks) =
     (if object = JUndefined \<or> object = JNull then JUndefined
      else baseGet (property object k) ks)"

text \<open>
  \<open>_.get(action.payload, 'hits_info.total.value', 0)\<close>. The payload is a record, so
  the first key of the path reads its field \<open>hits_info\<close> and \<open>baseGet\<close> follows
  the other two. \<open>_.get\<close> returns the default where the result is \<open>undefined\<close>,
  and the result itself otherwise.
\<close>

definition get_hits_info_total_value :: "artListPayload \<Rightarrow> js_any \<Rightarrow> js_any" where
  "get_hits_info_total_value payload defaultValue =
     (let result = baseGet (artListPayload.hits_info payload) [''total'', ''value''] in
      if result = JUndefined then defaultValue else result)"

text \<open>The three actions of the slice, named as the exported action creators.\<close>

datatype slice_action =
    actArtList artListPayload
  | actIsLoading bool
  | actIsLoadingExtended bool

fun artifactsReducer :: "IStateArtifacts \<Rightarrow> slice_action \<Rightarrow> IStateArtifacts" where
  "artifactsReducer state (actArtList payload) =
     state\<lparr>error := artListPayload.error payload,
           artList := hits payload,
           hits_info := artListPayload.hits_info payload,
           isLoading := False,
           isLoadingExtended := False,
           totalHits := get_hits_info_total_value payload (JNumber 0)\<rparr>"
| "artifactsReducer state (actIsLoading b) =
     (let state = state\<lparr>isLoading := b\<rparr> in
      if b then state\<lparr>hits_info := JObject [], artList := [], error := None\<rparr>
      else state)"
| "artifactsReducer state (actIsLoadingExtended b) = state\<lparr>isLoadingExtended := b\<rparr>"

subsection \<open>Queries, responses and failures\<close>

datatype query_document = ArtifactsSearchFastQuery1 | ArtifactsSearchSlowQuery2

record search_vars =
  sortBy :: string
  artTypes :: "string list"
  newerThen :: string
  queryString :: string
  doDeepSearch :: bool
  paginationSize :: int

text \<open>\<open>getState().artifactsCurrentQuery\<close>, as far as \<open>actLoad\<close> reads it.\<close>

record artifactsCurrentQuery = search_vars +
  page :: int

record queryVars = search_vars +
  paginationFrom :: int

record QueryOptions =
  query :: query_document
  variables :: queryVars
  errorPolicy :: string
  fetchPolicy :: string
  notifyOnNetworkStatusChange :: bool

text \<open>
  A number that a \<open>catch\<close> can receive: an integer between \<open>-2^53\<close> and
  \<open>2^53 - 1\<close> (held as a signed 54-bit word; JavaScript prints each of them in
  decimal digits), negative zero, \<open>NaN\<close> or an infinity. Fractions are left out.
\<close>

datatype js_number = SafeInteger "54 word" | NegZero | NaN | Infinity | NegInfinity

text \<open>
  What a \<open>catch\<close> can receive: an error object (what \<open>_.isError\<close> accepts) with
  its name and message, a string, \<open>undefined\<close>, \<open>null\<close>, a boolean, a number,
  a symbol with its description, an array of such values, or an object with the inherited
  conversion to a string. Values whose conversion runs code of their own are left out.
\<close>

datatype thrown =
    ErrorObject (error_name: string) (message: string)
  | StringValue string
  | UndefinedValue
  | NullValue
  | BooleanValue bool
  | NumberValue js_number
  | SymbolValue string
  | ArrayValue "thrown list"
  | PlainObject

fun isError :: "thrown \<Rightarrow> bool" where
  "isError (ErrorObject n m) = True"
| "isError v = False"

text \<open>The decimal digits of a natural number.\<close>

function decimal :: "nat \<Rightarrow> string" where
  "decimal n =
     (if n < 10 then [''0123456789'' ! n]
      else decimal (n div 10) @ [''0123456789'' ! (n mod 10)])"
  by pat_completeness auto
termination
  by (relation "measure id") auto

declare decimal.simps [simp del]

text \<open>JavaScript's conversion \<open>value + ''\<close> of a number; negative zero prints as 0.\<close>

definition numberToString :: "js_number \<Rightarrow> string" where
  "numberToString x =
     (case x of
        SafeInteger w \<Rightarrow>
          (if sint w < 0 then ''-'' @ decimal (nat (- sint w)) else decimal (nat (sint w)))
      | NegZero \<Rightarrow> ''0''
      | NaN \<Rightarrow> ''NaN''
      | Infinity \<Rightarrow> ''Infinity''
      | NegInfinity \<Rightarrow> ''-Infinity'')"

text \<open>\<open>Array.prototype.join\<close> of an array of strings with the comma.\<close>

fun join :: "string list \<Rightarrow> string" where
  "join [] = []"
| "join [s] = s"
| "join (s # t # ts) = s @ '','' @ join (t # ts)"

text \<open>
  lodash's \<open>baseToString\<close>: a string as it is; an array by converting its elements
  and joining them; a symbol by \<open>Symbol.prototype.toString\<close>; every other value by
  \<open>value + ''\<close>, with \<open>'-0'\<close> for negative zero. For an error object
  \<open>value + ''\<close> is \<open>Error.prototype.toString\<close>.
\<close>

fun baseToString :: "thrown \<Rightarrow> string" where
  "baseToString (StringValue s) = s"
| "baseToString (ArrayValue vs) = join (map baseToString vs)"
| "baseToString (SymbolValue d) = ''Symbol('' @ d @ '')''"
| "baseToString (NumberValue x) = (if x = NegZero then ''-0'' else numberToString x)"
| "baseToString UndefinedValue = ''undefined''"
| "baseToString NullValue = ''null''"
| "baseToString (BooleanValue b) = (if b then ''true'' else ''false'')"
| "baseToString (ErrorObject n m) =
     (if n = [] then m else if m = [] then n else n @ '': '' @ m)"
| "baseToString PlainObject = ''[object Object]''"

text \<open>\<open>_.toString\<close>: the empty string for nil, \<open>baseToString\<close> otherwise.\<close>

definition toString :: "thrown \<Rightarrow> string" where
  "toString v = (if v = UndefinedValue \<or> v = NullValue then [] else baseToString v)"

text \<open>
  A resolved response either has \<open>data.artifacts\<close>, with its hits and its
  \<open>hits_info\<close>, or lacks it; then the destructuring in \<open>responseToState\<close> raises
  a TypeError, whose message (chosen by the JavaScript engine) is carried here.
\<close>

datatype response =
    Response (response_hits: "response_hit list") (response_hits_info: js_any)
  | NoArtifacts string

datatype outcome = Resolved response | Rejected thrown

type_synonym client = "QueryOptions \<Rightarrow> outcome"

text \<open>The arrow function that \<open>responseToState\<close> maps over the hits.\<close>

definition shape_hit :: "response_hit \<Rightarrow> Artifact" where
  "shape_hit h =
     \<lparr>hit_info = hit_info h, hit_source = hit_source h,
      greenwaveDecision = greenwaveDecision h\<rparr>"

definition responseToState :: "response \<Rightarrow> thrown + artListPayload" where
  "responseToState r =
     (case r of
        NoArtifacts msg \<Rightarrow> Inl (ErrorObject ''TypeError'' msg)
      | Response hits' hits_info' \<Rightarrow>
          Inr \<lparr>hits = map shape_hit hits', error = None, hits_info = hits_info'\<rparr>)"

subsection \<open>actLoad\<close>

text \<open>
  What the thunk does, in order: the actions it dispatches and the queries it hands to
  the client.
\<close>

datatype event = Dispatch slice_action | Query QueryOptions

definition fast_query :: "artifactsCurrentQuery \<Rightarrow> QueryOptions" where
  "fast_query cq =
     (let paginationFrom = (page cq - 1) * paginationSize cq;
          queryVars = \<lparr>sortBy = sortBy cq, artTypes = artTypes cq, newerThen = newerThen cq,
                       queryString = queryString cq, doDeepSearch = doDeepSearch cq,
                       paginationSize = paginationSize cq, paginationFrom = paginationFrom\<rparr>
      in \<lparr>query = ArtifactsSearchFastQuery1, variables = queryVars, errorPolicy = ''all'',
          fetchPolicy = ''cache-first'', notifyOnNetworkStatusChange = True\<rparr>)"

definition slow_query :: "artifactsCurrentQuery \<Rightarrow> QueryOptions" where
  "slow_query cq = (fast_query cq)\<lparr>query := ArtifactsSearchSlowQuery2\<rparr>"

text \<open>The \<open>catch\<close> block.\<close>

definition catch_block :: "thrown \<Rightarrow> event list" where
  "catch_block err =
     (let errorText = (if isError err then message err else toString err) in
      [Dispatch (actArtList \<lparr>hits = [], error = Some errorText,
                              hits_info = JObject [(''total'', JObject [(''value'', JNumber 0)])]\<rparr>)])"

text \<open>The \<open>try\<close> block after the first publish (\<open>/** Second stage */\<close>).\<close>

definition second_stage :: "client \<Rightarrow> artifactsCurrentQuery \<Rightarrow> artListPayload \<Rightarrow> event list" where
  "second_stage client cq artList' =
     (if hits artList' = [] then []
      else
        [Dispatch (actIsLoadingExtended True), Query (slow_query cq)] @
        (case client (slow_query cq) of
           Rejected err \<Rightarrow> catch_block err
         | Resolved response \<Rightarrow>
             (case responseToState response of
                Inl err \<Rightarrow> catch_block err
              | Inr artList' \<Rightarrow> [Dispatch (actArtList artList')])))"

text \<open>
  \<open>actLoad(client)\<close>, run against the current query. The client answers each query
  with the outcome of its promise. (The optional parameter \<open>complete\<close> is not read by
  the source.)
\<close>

definition actLoad :: "client \<Rightarrow> artifactsCurrentQuery \<Rightarrow> event list" where
  "actLoad client cq =
     [Dispatch (actIsLoading True), Query (fast_query cq)] @
     (case client (fast_query cq) of
        Rejected err \<Rightarrow> catch_block err
      | Resolved response \<Rightarrow>
          (case responseToState response of
             Inl err \<Rightarrow> catch_block err
           | Inr artList' \<Rightarrow> Dispatch (actArtList artList') # second_stage client cq artList'))"

text \<open>The store: every dispatched action goes through the reducer; a query leaves it alone.\<close>

fun store_step :: "IStateArtifacts \<Rightarrow> event \<Rightarrow> IStateArtifacts" where
  "store_step state (Dispatch a) = artifactsReducer state a"
| "store_step state (Query q) = state"

definition store_after :: "IStateArtifacts \<Rightarrow> event list \<Rightarrow> IStateArtifacts" where
  "store_after state evs = foldl store_step state evs"

section \<open>History: lemmas\<close>

lemma forEach_body_append: "forEach_body lines e = lines @ emitted e"
  by (simp add: forEach_body_def emitted_def Let_def)

lemma foldl_forEach_body: "foldl forEach_body acc h = acc @ concat (map emitted h)"
proof (induction h arbitrary: acc)
  case Nil
  show ?case by simp
next
  case (Cons e h)
  have "foldl forEach_body acc (e # h) = foldl forEach_body (forEach_body acc e) h"
    by simp
  also have "\<dots> = forEach_body acc e @ concat (map emitted h)"
    by (rule Cons.IH)
  also have "\<dots> = acc @ concat (map emitted (e # h))"
    by (simp add: forEach_body_append)
  finally show ?case .
qed

lemma history_lines_concat: "history_lines h = concat (map emitted h)"
  by (simp add: history_lines_def foldl_forEach_body)

lemma every_revoke_iff:
  "every [js_number t, js_string n, js_number i] \<longleftrightarrow>
     (\<exists>t' n' i'. t = Some t' \<and> t' \<noteq> 0 \<and> n = Some n' \<and> n' \<noteq> [] \<and> i = Some i' \<and> i' \<noteq> 0)"
  by (cases t; cases n; cases i) (auto simp: every_def js_number_def js_string_def)

lemma emitted_cases:
  "emitted e =
     (if every [js_number (revoke_ts e), js_string (revoker_name e), js_number (revoker_id e)]
      then [tagged_line e, untagged_line e] else [tagged_line e])"
  by (simp add: emitted_def forEach_body_def Let_def)

lemma mset_history_lines:
  "mset h' = mset h \<Longrightarrow> mset (history_lines h') = mset (history_lines h)"
proof -
  assume eq: "mset h' = mset h"
  have flat: "mset (concat (map emitted xs)) = (\<Sum>e\<in>#mset xs. mset (emitted e))" for xs
    by (induction xs) simp_all
  have "mset (concat (map emitted h')) = (\<Sum>e\<in>#mset h'. mset (emitted e))"
    by (rule flat)
  also have "\<dots> = (\<Sum>e\<in>#mset h. mset (emitted e))"
    by (simp add: eq)
  also have "\<dots> = mset (concat (map emitted h))"
    by (rule flat [symmetric])
  finally show ?thesis by (simp add: history_lines_concat)
qed

lemma active_in_history_lines:
  "x \<in> set (history_lines h) \<Longrightarrow> active x \<Longrightarrow> action x = ''tagged into''"
  by (auto simp: history_lines_concat emitted_cases tagged_line_def untagged_line_def
      split: if_splits)

lemma set_history_log: "set (history_log h) = set (history_lines h)"
  by (simp add: history_log_def orderBy_time_asc_def)

lemma history_log_sorted: "sorted (map time (history_log h))"
  by (simp add: history_log_def orderBy_time_asc_def)

lemma history_log_permute:
  assumes perm: "mset h' = mset h" and dist: "distinct (map time (history_lines h))"
  shows "history_log h' = history_log h"
proof -
  have m: "mset (history_lines h') = mset (history_log h)"
    using mset_history_lines [OF perm] by (simp add: history_log_def orderBy_time_asc_def)
  have "set (history_lines h') = set (history_lines h)"
    using mset_history_lines [OF perm] by (rule mset_eq_setD)
  moreover have "inj_on time (set (history_lines h))"
    using dist by (simp add: distinct_map)
  ultimately have inj: "inj_on time (set (history_lines h'))" by simp
  have "sort_key time (history_lines h') = history_log h"
    using m inj history_log_sorted by (rule sort_key_inj_key_eq)
  then show ?thesis by (simp add: history_log_def orderBy_time_asc_def)
qed

lemmas history_eval =
  history_log_def orderBy_time_asc_def history_lines_def forEach_body_def emitted_def
  every_def js_number_def js_string_def tagged_line_def untagged_line_def Let_def

section \<open>History: the claims\<close>

text \<open>
  C1, as the code has it. The loop body pushes the "untagged from" entry if and only if
  \<open>_.every\<close> finds the three revoke fields truthy: present, the timestamp and the id
  not 0, the name not empty. The entry then carries the revoke timestamp, the revoker's id
  and name, and is never active. In every other case the record yields the "tagged into"
  entry alone. The lines of a history are the entries of its records, in order.
\<close>

theorem untagged_iff_revoke_truthy:
  "history_lines h = concat (map emitted h) \<and>
   (revoke_ts e = Some t \<and> t \<noteq> 0 \<and> revoker_name e = Some n \<and> n \<noteq> [] \<and>
    revoker_id e = Some i \<and> i \<noteq> 0 \<longrightarrow>
      emitted e =
        [tagged_line e,
         \<lparr>action = ''untagged from'', active = False, person_id = i, person_name = n,
          tag_name = KojiBuildTagging.tag_name e, time = t\<rparr>]) \<and>
   (revoke_ts e = None \<or> revoke_ts e = Some 0 \<or> revoker_name e = None \<or>
    revoker_name e = Some [] \<or> revoker_id e = None \<or> revoker_id e = Some 0 \<longrightarrow>
      emitted e = [tagged_line e])"
proof -
  have a: "history_lines h = concat (map emitted h)"
    by (rule history_lines_concat)
  have b: "emitted e =
        [tagged_line e,
         \<lparr>action = ''untagged from'', active = False, person_id = i, person_name = n,
          tag_name = KojiBuildTagging.tag_name e, time = t\<rparr>]"
    if "revoke_ts e = Some t \<and> t \<noteq> 0 \<and> revoker_name e = Some n \<and> n \<noteq> [] \<and>
        revoker_id e = Some i \<and> i \<noteq> 0"
    using that by (simp add: emitted_cases every_revoke_iff untagged_line_def)
  have c: "emitted e = [tagged_line e]"
    if "revoke_ts e = None \<or> revoke_ts e = Some 0 \<or> revoker_name e = None \<or>
        revoker_name e = Some [] \<or> revoker_id e = None \<or> revoker_id e = Some 0"
    using that by (auto simp: emitted_cases every_revoke_iff)
  from a b c show ?thesis by blast
qed

text \<open>
  The full revoke of the specification's example gives two entries; the same record
  without the revoker's name gives one.
\<close>

theorem untagged_iff_revoke_truthy_witness:
  "emitted \<lparr>KojiBuildTagging.active = False, create_ts = 100, creator_id = 1,
            creator_name = ''a'', revoke_ts = Some 200, revoker_id = Some 2,
            revoker_name = Some ''b'', KojiBuildTagging.tag_name = ''t1''\<rparr> =
     [\<lparr>action = ''tagged into'', active = False, person_id = 1, person_name = ''a'',
       tag_name = ''t1'', time = 100\<rparr>,
      \<lparr>action = ''untagged from'', active = False, person_id = 2, person_name = ''b'',
       tag_name = ''t1'', time = 200\<rparr>] \<and>
   emitted \<lparr>KojiBuildTagging.active = False, create_ts = 100, creator_id = 1,
            creator_name = ''a'', revoke_ts = Some 200, revoker_id = Some 2,
            revoker_name = None, KojiBuildTagging.tag_name = ''t1''\<rparr> =
     [\<lparr>action = ''tagged into'', active = False, person_id = 1, person_name = ''a'',
       tag_name = ''t1'', time = 100\<rparr>]"
  using untagged_iff_revoke_truthy
    [where e = "\<lparr>KojiBuildTagging.active = False, create_ts = 100, creator_id = 1,
            creator_name = ''a'', revoke_ts = Some 200, revoker_id = Some 2,
            revoker_name = Some ''b'', KojiBuildTagging.tag_name = ''t1''\<rparr>"
       and t = 200 and n = "''b''" and i = 2]
    untagged_iff_revoke_truthy
    [where e = "\<lparr>KojiBuildTagging.active = False, create_ts = 100, creator_id = 1,
            creator_name = ''a'', revoke_ts = Some 200, revoker_id = Some 2,
            revoker_name = None, KojiBuildTagging.tag_name = ''t1''\<rparr>"]
  by (simp add: tagged_line_def)

text \<open>
  C1 as the specification words it fails: a revoker id of 0 is present, yet it is falsy,
  and the record yields the "tagged into" entry alone.
\<close>

theorem present_falsy_revoker_id_counterexample:
  "history_log
     [\<lparr>KojiBuildTagging.active = False, create_ts = 100, creator_id = 1,
       creator_name = ''a'', revoke_ts = Some 200, revoker_id = Some 0,
       revoker_name = Some ''b'', KojiBuildTagging.tag_name = ''t1''\<rparr>] =
     [\<lparr>action = ''tagged into'', active = False, person_id = 1, person_name = ''a'',
       tag_name = ''t1'', time = 100\<rparr>]"
  by (simp add: history_eval)

text \<open>
  C4. The log is the concatenation of the entries of all records, sorted by time: the
  times are ascending, each adjacent pair is non-decreasing, and when the times of the
  entries are pairwise distinct, any reordering of the records gives the same log.
\<close>

theorem merged_timeline_sorted:
  "history_log h = sort_key time (concat (map emitted h)) \<and>
   sorted (map time (history_log h)) \<and>
   (\<forall>i. Suc i < length (history_log h) \<longrightarrow>
        time (history_log h ! i) \<le> time (history_log h ! Suc i)) \<and>
   (mset h' = mset h \<and> distinct (map time (history_lines h)) \<longrightarrow>
      history_log h' = history_log h)"
proof -
  have a: "history_log h = sort_key time (concat (map emitted h))"
    by (simp add: history_log_def orderBy_time_asc_def history_lines_concat)
  have b: "sorted (map time (history_log h))"
    by (rule history_log_sorted)
  have c: "\<forall>i. Suc i < length (history_log h) \<longrightarrow>
        time (history_log h ! i) \<le> time (history_log h ! Suc i)"
    using b by (simp add: sorted_iff_nth_Suc)
  have d: "mset h' = mset h \<and> distinct (map time (history_lines h)) \<longrightarrow>
      history_log h' = history_log h"
    using history_log_permute by blast
  from a b c d show ?thesis by blast
qed

text \<open>Two records tagged at 300 and at 100, in either order: the entry at 100 comes first.\<close>

theorem merged_timeline_sorted_witness:
  "history_log
     [\<lparr>KojiBuildTagging.active = True, create_ts = 100, creator_id = 1, creator_name = ''a'',
       revoke_ts = None, revoker_id = None, revoker_name = None,
       KojiBuildTagging.tag_name = ''t1''\<rparr>,
      \<lparr>KojiBuildTagging.active = True, create_ts = 300, creator_id = 1, creator_name = ''a'',
       revoke_ts = None, revoker_id = None, revoker_name = None,
       KojiBuildTagging.tag_name = ''t3''\<rparr>] =
   history_log
     [\<lparr>KojiBuildTagging.active = True, create_ts = 300, creator_id = 1, creator_name = ''a'',
       revoke_ts = None, revoker_id = None, revoker_name = None,
       KojiBuildTagging.tag_name = ''t3''\<rparr>,
      \<lparr>KojiBuildTagging.active = True, create_ts = 100, creator_id = 1, creator_name = ''a'',
       revoke_ts = None, revoker_id = None, revoker_name = None,
       KojiBuildTagging.tag_name = ''t1''\<rparr>] \<and>
   map time (history_log
     [\<lparr>KojiBuildTagging.active = True, create_ts = 300, creator_id = 1, creator_name = ''a'',
       revoke_ts = None, revoker_id = None, revoker_name = None,
       KojiBuildTagging.tag_name = ''t3''\<rparr>,
      \<lparr>KojiBuildTagging.active = True, create_ts = 100, creator_id = 1, creator_name = ''a'',
       revoke_ts = None, revoker_id = None, revoker_name = None,
       KojiBuildTagging.tag_name = ''t1''\<rparr>]) = [100, 300]"
proof -
  let ?r1 = "\<lparr>KojiBuildTagging.active = True, create_ts = 100, creator_id = 1,
       creator_name = ''a'', revoke_ts = None, revoker_id = None, revoker_name = None,
       KojiBuildTagging.tag_name = ''t1''\<rparr>"
  let ?r3 = "\<lparr>KojiBuildTagging.active = True, create_ts = 300, creator_id = 1,
       creator_name = ''a'', revoke_ts = None, revoker_id = None, revoker_name = None,
       KojiBuildTagging.tag_name = ''t3''\<rparr>"
  have perm: "mset [?r1, ?r3] = mset [?r3, ?r1]"
    by (simp add: add_mset_commute)
  have dist: "distinct (map time (history_lines [?r3, ?r1]))"
    by (simp add: history_eval)
  have eq: "history_log [?r1, ?r3] = history_log [?r3, ?r1]"
    using merged_timeline_sorted [of "[?r3, ?r1]" "[?r1, ?r3]"] perm dist by blast
  have val: "map time (history_log [?r3, ?r1]) = [100, 300]"
    by (simp add: history_eval)
  from eq val show ?thesis by blast
qed

text \<open>
  C9. For every entry of the log, the rendered line ends in "[still active]" exactly when
  the entry is active and its action is "tagged into"; the line of an "untagged from"
  entry ends after the person's name. \<open>HistoryList\<close> renders the entries of the log,
  in order.
\<close>

theorem still_active_suffix:
  "HistoryList f z (Some h) = Some (map (HistoryListEntry f z) (history_log h)) \<and>
   (entry \<in> set (history_log h) \<longrightarrow>
      HistoryListEntry f z entry =
        f (time entry) @ '' '' @ z (time entry) @ '' '' @ action entry @ '' '' @
        tag_name entry @ '' by '' @ person_name entry @ '' '' @
        (if active entry \<and> action entry = ''tagged into'' then ''[still active]'' else [])) \<and>
   (entry \<in> set (history_log h) \<and> action entry = ''untagged from'' \<longrightarrow>
      HistoryListEntry f z entry =
        f (time entry) @ '' '' @ z (time entry) @ '' '' @ action entry @ '' '' @
        tag_name entry @ '' by '' @ person_name entry @ '' '')"
proof -
  have a: "HistoryList f z (Some h) = Some (map (HistoryListEntry f z) (history_log h))"
    by (simp add: HistoryList_def)
  have tagged: "active entry \<longrightarrow> action entry = ''tagged into''"
    if "entry \<in> set (history_log h)"
    using that active_in_history_lines [of entry h] by (simp add: set_history_log)
  have b: "HistoryListEntry f z entry =
        f (time entry) @ '' '' @ z (time entry) @ '' '' @ action entry @ '' '' @
        tag_name entry @ '' by '' @ person_name entry @ '' '' @
        (if active entry \<and> action entry = ''tagged into'' then ''[still active]'' else [])"
    if "entry \<in> set (history_log h)"
    using tagged [OF that] by (simp add: HistoryListEntry_def)
  have c: "HistoryListEntry f z entry =
        f (time entry) @ '' '' @ z (time entry) @ '' '' @ action entry @ '' '' @
        tag_name entry @ '' by '' @ person_name entry @ '' ''"
    if "entry \<in> set (history_log h) \<and> action entry = ''untagged from''"
    using that tagged [of] by (auto simp: HistoryListEntry_def)
  from a b c show ?thesis by blast
qed

text \<open>The revoked tag of the specification's example, rendered with fixed time texts.\<close>

theorem still_active_suffix_witness:
  "HistoryList (\<lambda>t. ''1970-01-01, 00:01'') (\<lambda>t. ''+0000'')
     (Some [\<lparr>KojiBuildTagging.active = True, create_ts = 100, creator_id = 1,
             creator_name = ''a'', revoke_ts = Some 200, revoker_id = Some 2,
             revoker_name = Some ''b'', KojiBuildTagging.tag_name = ''t1''\<rparr>]) =
     Some [''1970-01-01, 00:01 +0000 tagged into t1 by a [still active]'',
           ''1970-01-01, 00:01 +0000 untagged from t1 by b '']"
proof -
  let ?h = "[\<lparr>KojiBuildTagging.active = True, create_ts = 100, creator_id = 1,
             creator_name = ''a'', revoke_ts = Some 200, revoker_id = Some 2,
             revoker_name = Some ''b'', KojiBuildTagging.tag_name = ''t1''\<rparr>]"
  let ?t = "\<lparr>action = ''tagged into'', active = True, person_id = 1, person_name = ''a'',
             tag_name = ''t1'', time = 100\<rparr>"
  let ?u = "\<lparr>action = ''untagged from'', active = False, person_id = 2, person_name = ''b'',
             tag_name = ''t1'', time = 200\<rparr>"
  have log: "history_log ?h = [?t, ?u]"
    by (simp add: history_eval)
  have t: "?t \<in> set (history_log ?h)" and u: "?u \<in> set (history_log ?h)"
    by (simp_all add: log)
  show ?thesis
    using still_active_suffix [of "\<lambda>t. ''1970-01-01, 00:01''" "\<lambda>t. ''+0000''" ?h ?t]
      still_active_suffix [of "\<lambda>t. ''1970-01-01, 00:01''" "\<lambda>t. ''+0000''" ?h ?u] t u
    by (simp add: log)
qed

section \<open>Search state: lemmas\<close>

lemma artList_publish_state:
  "artifactsReducer s (actArtList p) =
     \<lparr>error = artListPayload.error p, artList = hits p,
      hits_info = artListPayload.hits_info p, isLoading = False,
      totalHits = get_hits_info_total_value p (JNumber 0), isLoadingExtended = False\<rparr>"
  by (cases s) simp

lemma property_of_nil: "property JUndefined k = JUndefined" "property JNull k = JUndefined"
  by simp_all

lemma baseGet_total_value:
  "baseGet x [''total'', ''value''] = property (property x ''total'') ''value''"
proof (cases "x = JUndefined \<or> x = JNull")
  case True
  then show ?thesis by auto
next
  case False
  then show ?thesis
    by (cases "property x ''total'' = JUndefined \<or> property x ''total'' = JNull") auto
qed

lemma store_after_Nil: "store_after s [] = s"
  by (simp add: store_after_def)

lemma store_after_Cons: "store_after s (ev # evs) = store_after (store_step s ev) evs"
  by (simp add: store_after_def)

lemma store_after_catch_block:
  "store_after s (catch_block e) =
     \<lparr>error = Some (if isError e then message e else toString e), artList = [],
      hits_info = JObject [(''total'', JObject [(''value'', JNumber 0)])], isLoading = False,
      totalHits = JNumber 0, isLoadingExtended = False\<rparr>"
  by (simp add: catch_block_def store_after_Cons store_after_Nil artList_publish_state
      get_hits_info_total_value_def)

lemma query_fast_query: "query (fast_query cq) = ArtifactsSearchFastQuery1"
  by (simp add: fast_query_def Let_def)

lemma query_slow_query: "query (slow_query cq) = ArtifactsSearchSlowQuery2"
  by (simp add: slow_query_def)

lemma variables_slow_query: "variables (slow_query cq) = variables (fast_query cq)"
  by (simp add: slow_query_def)

lemma no_query_in_catch_block: "Query q \<notin> set (catch_block e)"
  by (simp add: catch_block_def)

lemma actLoad_fast_rejected:
  "client (fast_query cq) = Rejected e \<Longrightarrow>
   actLoad client cq = [Dispatch (actIsLoading True), Query (fast_query cq)] @ catch_block e"
  by (simp add: actLoad_def)

lemma actLoad_fast_empty:
  "client (fast_query cq) = Resolved (Response [] hi) \<Longrightarrow>
   actLoad client cq =
     [Dispatch (actIsLoading True), Query (fast_query cq),
      Dispatch (actArtList \<lparr>hits = [], error = None, hits_info = hi\<rparr>)]"
  by (simp add: actLoad_def responseToState_def second_stage_def)

lemma actLoad_fast_nonempty:
  "client (fast_query cq) = Resolved (Response hs hi) \<Longrightarrow> hs \<noteq> [] \<Longrightarrow>
   actLoad client cq =
     [Dispatch (actIsLoading True), Query (fast_query cq),
      Dispatch (actArtList \<lparr>hits = map shape_hit hs, error = None, hits_info = hi\<rparr>),
      Dispatch (actIsLoadingExtended True), Query (slow_query cq)] @
     (case client (slow_query cq) of
        Rejected err \<Rightarrow> catch_block err
      | Resolved response \<Rightarrow>
          (case responseToState response of
             Inl err \<Rightarrow> catch_block err
           | Inr artList' \<Rightarrow> [Dispatch (actArtList artList')]))"
  by (simp add: actLoad_def responseToState_def second_stage_def)

lemma actLoad_fast_malformed:
  "client (fast_query cq) = Resolved (NoArtifacts m) \<Longrightarrow>
   actLoad client cq =
     [Dispatch (actIsLoading True), Query (fast_query cq)] @
     catch_block (ErrorObject ''TypeError'' m)"
  by (simp add: actLoad_def responseToState_def)

lemma slow_query_issued_iff:
  "(\<exists>q. Query q \<in> set (actLoad client cq) \<and> query q = ArtifactsSearchSlowQuery2) \<longleftrightarrow>
   (\<exists>hs hi. client (fast_query cq) = Resolved (Response hs hi) \<and> hs \<noteq> [])"
proof (cases "client (fast_query cq)")
  case (Rejected e)
  then show ?thesis
    by (auto simp: actLoad_fast_rejected no_query_in_catch_block query_fast_query)
next
  case (Resolved r)
  show ?thesis
  proof (cases r)
    case (NoArtifacts m)
    with Resolved show ?thesis
      by (auto simp: actLoad_fast_malformed no_query_in_catch_block query_fast_query)
  next
    case (Response hs hi)
    show ?thesis
    proof (cases "hs = []")
      case True
      with Resolved Response show ?thesis
        by (auto simp: actLoad_fast_empty query_fast_query)
    next
      case False
      with Resolved Response have "Query (slow_query cq) \<in> set (actLoad client cq)"
        by (simp add: actLoad_fast_nonempty)
      with Resolved Response False show ?thesis
        using query_slow_query by blast
    qed
  qed
qed

lemma flags_after_actLoad:
  "isLoading (store_after s (actLoad client cq)) = False \<and>
   isLoadingExtended (store_after s (actLoad client cq)) = False"
proof (cases "client (fast_query cq)")
  case (Rejected e)
  then show ?thesis
    by (simp add: actLoad_fast_rejected store_after_Cons store_after_catch_block)
next
  case (Resolved r)
  show ?thesis
  proof (cases r)
    case (NoArtifacts m)
    with Resolved show ?thesis
      by (simp add: actLoad_fast_malformed store_after_Cons store_after_catch_block)
  next
    case (Response hs hi)
    show ?thesis
    proof (cases "hs = []")
      case True
      with Resolved Response show ?thesis
        by (simp add: actLoad_fast_empty store_after_Cons store_after_Nil)
    next
      case False
      with Resolved Response show ?thesis
        by (simp add: actLoad_fast_nonempty store_after_catch_block
            store_after_Cons store_after_Nil split: outcome.split sum.split)
    qed
  qed
qed

lemma store_after_fast_rejected:
  "client (fast_query cq) = Rejected e \<Longrightarrow>
   store_after s (actLoad client cq) =
     \<lparr>error = Some (if isError e then message e else toString e), artList = [],
      hits_info = JObject [(''total'', JObject [(''value'', JNumber 0)])], isLoading = False,
      totalHits = JNumber 0, isLoadingExtended = False\<rparr>"
  by (simp add: actLoad_fast_rejected store_after_Cons store_after_catch_block)

lemma store_after_slow_rejected:
  "client (fast_query cq) = Resolved (Response hs hi) \<Longrightarrow> hs \<noteq> [] \<Longrightarrow>
   client (slow_query cq) = Rejected e \<Longrightarrow>
   store_after s (actLoad client cq) =
     \<lparr>error = Some (if isError e then message e else toString e), artList = [],
      hits_info = JObject [(''total'', JObject [(''value'', JNumber 0)])], isLoading = False,
      totalHits = JNumber 0, isLoadingExtended = False\<rparr>"
  by (simp add: actLoad_fast_nonempty store_after_Cons store_after_catch_block)

lemma store_after_fast_publish:
  "client (fast_query cq) = Resolved (Response hs hi) \<Longrightarrow> hs \<noteq> [] \<Longrightarrow>
   store_after s (take 3 (actLoad client cq)) =
     \<lparr>error = None, artList = map shape_hit hs, hits_info = hi, isLoading = False,
      totalHits = get_hits_info_total_value
        \<lparr>hits = map shape_hit hs, error = None, hits_info = hi\<rparr> (JNumber 0),
      isLoadingExtended = False\<rparr>"
  by (simp add: actLoad_fast_nonempty store_after_Cons store_after_Nil artList_publish_state)

section \<open>Search state: the claims\<close>

text \<open>
  C2. When the fast query is rejected, and when the fast query gave hits and the slow
  query is rejected, the store ends with no results, a total of 0, the message of the
  failure as the error and both loading flags false. In the second case the store held
  the hits of the fast stage after the first three steps of the load; the failure
  publish replaces them by the empty list.
\<close>

theorem failed_load_resets_state:
  "(client (fast_query cq) = Rejected e \<longrightarrow>
      store_after s (actLoad client cq) =
        \<lparr>error = Some (if isError e then message e else toString e), artList = [],
         hits_info = JObject [(''total'', JObject [(''value'', JNumber 0)])], isLoading = False,
         totalHits = JNumber 0, isLoadingExtended = False\<rparr>) \<and>
   (client (fast_query cq) = Resolved (Response hs hi) \<and> hs \<noteq> [] \<and>
    client (slow_query cq) = Rejected e \<longrightarrow>
      artList (store_after s (take 3 (actLoad client cq))) = map shape_hit hs \<and>
      store_after s (actLoad client cq) =
        \<lparr>error = Some (if isError e then message e else toString e), artList = [],
         hits_info = JObject [(''total'', JObject [(''value'', JNumber 0)])], isLoading = False,
         totalHits = JNumber 0, isLoadingExtended = False\<rparr>)"
  using store_after_fast_rejected [of client cq e s]
    store_after_slow_rejected [of client cq hs hi e s]
    store_after_fast_publish [of client cq hs hi s]
  by simp

text \<open>
  A client whose fast query gives two hits out of ten and whose slow query fails, and a
  client that fails at once.
\<close>

theorem failed_load_resets_state_witness:
  "artList (store_after INITIAL_STATE (take 3 (actLoad
     (\<lambda>q. if query q = ArtifactsSearchFastQuery1
          then Resolved (Response
            [\<lparr>hit_info = ''i1'', hit_source = ''s1'', greenwaveDecision = ''d1'',
              other_fields = ''''\<rparr>,
             \<lparr>hit_info = ''i2'', hit_source = ''s2'', greenwaveDecision = ''d2'',
              other_fields = ''''\<rparr>]
            (JObject [(''total'', JObject [(''value'', JNumber 10)])]))
          else Rejected (ErrorObject ''Error'' ''Network error''))
     \<lparr>sortBy = ''taskId'', artTypes = [''brew-build''], newerThen = ''3'',
      queryString = ''bash'', doDeepSearch = False, paginationSize = 20, page = 1\<rparr>))) =
     [\<lparr>hit_info = ''i1'', hit_source = ''s1'', greenwaveDecision = ''d1''\<rparr>,
      \<lparr>hit_info = ''i2'', hit_source = ''s2'', greenwaveDecision = ''d2''\<rparr>] \<and>
   store_after INITIAL_STATE (actLoad
     (\<lambda>q. if query q = ArtifactsSearchFastQuery1
          then Resolved (Response
            [\<lparr>hit_info = ''i1'', hit_source = ''s1'', greenwaveDecision = ''d1'',
              other_fields = ''''\<rparr>,
             \<lparr>hit_info = ''i2'', hit_source = ''s2'', greenwaveDecision = ''d2'',
              other_fields = ''''\<rparr>]
            (JObject [(''total'', JObject [(''value'', JNumber 10)])]))
          else Rejected (ErrorObject ''Error'' ''Network error''))
     \<lparr>sortBy = ''taskId'', artTypes = [''brew-build''], newerThen = ''3'',
      queryString = ''bash'', doDeepSearch = False, paginationSize = 20, page = 1\<rparr>) =
     \<lparr>error = Some ''Network error'', artList = [],
      hits_info = JObject [(''total'', JObject [(''value'', JNumber 0)])], isLoading = False,
      totalHits = JNumber 0, isLoadingExtended = False\<rparr> \<and>
   store_after INITIAL_STATE (actLoad
     (\<lambda>q. Rejected (StringValue ''timeout''))
     \<lparr>sortBy = ''taskId'', artTypes = [''brew-build''], newerThen = ''3'',
      queryString = ''bash'', doDeepSearch = False, paginationSize = 20, page = 1\<rparr>) =
     \<lparr>error = Some ''timeout'', artList = [],
      hits_info = JObject [(''total'', JObject [(''value'', JNumber 0)])], isLoading = False,
      totalHits = JNumber 0, isLoadingExtended = False\<rparr>"
proof -
  let ?hs = "[\<lparr>hit_info = ''i1'', hit_source = ''s1'', greenwaveDecision = ''d1'',
              other_fields = ''''\<rparr>,
             \<lparr>hit_info = ''i2'', hit_source = ''s2'', greenwaveDecision = ''d2'',
              other_fields = ''''\<rparr>]"
  let ?hi = "JObject [(''total'', JObject [(''value'', JNumber 10)])]"
  let ?c = "\<lambda>q. if query q = ArtifactsSearchFastQuery1 then Resolved (Response ?hs ?hi)
          else Rejected (ErrorObject ''Error'' ''Network error'')"
  let ?cq = "\<lparr>sortBy = ''taskId'', artTypes = [''brew-build''], newerThen = ''3'',
      queryString = ''bash'', doDeepSearch = False, paginationSize = 20, page = 1\<rparr>"
  have f: "?c (fast_query ?cq) = Resolved (Response ?hs ?hi)"
    by (simp add: query_fast_query)
  have sl: "?c (slow_query ?cq) = Rejected (ErrorObject ''Error'' ''Network error'')"
    by (simp add: query_slow_query)
  have ne: "?hs \<noteq> []" by simp
  have one: "artList (store_after INITIAL_STATE (take 3 (actLoad ?c ?cq))) = map shape_hit ?hs \<and>
      store_after INITIAL_STATE (actLoad ?c ?cq) =
        \<lparr>error = Some ''Network error'', artList = [],
         hits_info = JObject [(''total'', JObject [(''value'', JNumber 0)])], isLoading = False,
         totalHits = JNumber 0, isLoadingExtended = False\<rparr>"
    using failed_load_resets_state
      [of ?c ?cq "ErrorObject ''Error'' ''Network error''" INITIAL_STATE ?hs ?hi] f sl ne
    by simp
  have two: "store_after INITIAL_STATE (actLoad (\<lambda>q. Rejected (StringValue ''timeout'')) ?cq) =
        \<lparr>error = Some ''timeout'', artList = [],
         hits_info = JObject [(''total'', JObject [(''value'', JNumber 0)])], isLoading = False,
         totalHits = JNumber 0, isLoadingExtended = False\<rparr>"
    using failed_load_resets_state
      [of "\<lambda>q. Rejected (StringValue ''timeout'')" ?cq "StringValue ''timeout''" INITIAL_STATE]
    by (simp add: toString_def)
  from one two show ?thesis by (simp add: shape_hit_def)
qed

text \<open>
  C3. The load hands the slow query to the client if and only if the fast query resolved
  with a non-empty hit list. Then the load starts with: mark loading, fast query, publish
  of the fast result, mark extended loading, slow query, in this order. When the fast
  query resolves with no hits, the load is: mark loading, fast query, publish of the
  empty result with no error; the store then holds no results and no error, and the
  total that the response reported.
\<close>

theorem slow_query_after_nonempty_fast:
  "((\<exists>q. Query q \<in> set (actLoad client cq) \<and> query q = ArtifactsSearchSlowQuery2) \<longleftrightarrow>
    (\<exists>hs' hi'. client (fast_query cq) = Resolved (Response hs' hi') \<and> hs' \<noteq> [])) \<and>
   (client (fast_query cq) = Resolved (Response hs hi) \<and> hs \<noteq> [] \<longrightarrow>
      take 5 (actLoad client cq) =
        [Dispatch (actIsLoading True), Query (fast_query cq),
         Dispatch (actArtList \<lparr>hits = map shape_hit hs, error = None, hits_info = hi\<rparr>),
         Dispatch (actIsLoadingExtended True), Query (slow_query cq)]) \<and>
   (client (fast_query cq) = Resolved (Response [] hi) \<longrightarrow>
      actLoad client cq =
        [Dispatch (actIsLoading True), Query (fast_query cq),
         Dispatch (actArtList \<lparr>hits = [], error = None, hits_info = hi\<rparr>)] \<and>
      store_after s (actLoad client cq) =
        \<lparr>error = None, artList = [], hits_info = hi, isLoading = False,
         totalHits = get_hits_info_total_value \<lparr>hits = [], error = None, hits_info = hi\<rparr> (JNumber 0),
         isLoadingExtended = False\<rparr>)"
proof -
  have a: "(\<exists>q. Query q \<in> set (actLoad client cq) \<and> query q = ArtifactsSearchSlowQuery2) \<longleftrightarrow>
    (\<exists>hs' hi'. client (fast_query cq) = Resolved (Response hs' hi') \<and> hs' \<noteq> [])"
    by (rule slow_query_issued_iff)
  have b: "take 5 (actLoad client cq) =
        [Dispatch (actIsLoading True), Query (fast_query cq),
         Dispatch (actArtList \<lparr>hits = map shape_hit hs, error = None, hits_info = hi\<rparr>),
         Dispatch (actIsLoadingExtended True), Query (slow_query cq)]"
    if "client (fast_query cq) = Resolved (Response hs hi) \<and> hs \<noteq> []"
    using that by (simp add: actLoad_fast_nonempty)
  have c: "actLoad client cq =
        [Dispatch (actIsLoading True), Query (fast_query cq),
         Dispatch (actArtList \<lparr>hits = [], error = None, hits_info = hi\<rparr>)] \<and>
      store_after s (actLoad client cq) =
        \<lparr>error = None, artList = [], hits_info = hi, isLoading = False,
         totalHits = get_hits_info_total_value \<lparr>hits = [], error = None, hits_info = hi\<rparr> (JNumber 0),
         isLoadingExtended = False\<rparr>"
    if "client (fast_query cq) = Resolved (Response [] hi)"
    using that
    by (simp add: actLoad_fast_empty store_after_Cons store_after_Nil artList_publish_state)
  from a b c show ?thesis by blast
qed

text \<open>
  A backend without matches: the slow query is not issued, although the client would
  answer it. A backend with one match: the slow query is issued fifth.
\<close>

theorem slow_query_after_nonempty_fast_witness:
  "actLoad (\<lambda>q. Resolved (Response [] (JObject [(''total'', JObject [(''value'', JNumber 0)])])))
     \<lparr>sortBy = ''taskId'', artTypes = [''brew-build''], newerThen = ''3'',
      queryString = ''bash'', doDeepSearch = False, paginationSize = 20, page = 1\<rparr> =
     [Dispatch (actIsLoading True),
      Query (fast_query
        \<lparr>sortBy = ''taskId'', artTypes = [''brew-build''], newerThen = ''3'',
         queryString = ''bash'', doDeepSearch = False, paginationSize = 20, page = 1\<rparr>),
      Dispatch (actArtList \<lparr>hits = [], error = None,
                              hits_info = JObject [(''total'', JObject [(''value'', JNumber 0)])]\<rparr>)] \<and>
   store_after INITIAL_STATE
     (actLoad (\<lambda>q. Resolved (Response [] (JObject [(''total'', JObject [(''value'', JNumber 0)])])))
       \<lparr>sortBy = ''taskId'', artTypes = [''brew-build''], newerThen = ''3'',
        queryString = ''bash'', doDeepSearch = False, paginationSize = 20, page = 1\<rparr>) =
     \<lparr>error = None, artList = [], hits_info = JObject [(''total'', JObject [(''value'', JNumber 0)])],
      isLoading = False, totalHits = JNumber 0, isLoadingExtended = False\<rparr> \<and>
   take 5 (actLoad
     (\<lambda>q. Resolved (Response
        [\<lparr>hit_info = ''i1'', hit_source = ''s1'', greenwaveDecision = ''d1'',
          other_fields = ''''\<rparr>] (JObject [(''total'', JObject [(''value'', JNumber 1)])])))
     \<lparr>sortBy = ''taskId'', artTypes = [''brew-build''], newerThen = ''3'',
      queryString = ''bash'', doDeepSearch = False, paginationSize = 20, page = 1\<rparr>) =
     [Dispatch (actIsLoading True),
      Query (fast_query
        \<lparr>sortBy = ''taskId'', artTypes = [''brew-build''], newerThen = ''3'',
         queryString = ''bash'', doDeepSearch = False, paginationSize = 20, page = 1\<rparr>),
      Dispatch (actArtList
        \<lparr>hits = [\<lparr>hit_info = ''i1'', hit_source = ''s1'', greenwaveDecision = ''d1''\<rparr>],
         error = None, hits_info = JObject [(''total'', JObject [(''value'', JNumber 1)])]\<rparr>),
      Dispatch (actIsLoadingExtended True),
      Query (slow_query
        \<lparr>sortBy = ''taskId'', artTypes = [''brew-build''], newerThen = ''3'',
         queryString = ''bash'', doDeepSearch = False, paginationSize = 20, page = 1\<rparr>)]"
proof -
  let ?cq = "\<lparr>sortBy = ''taskId'', artTypes = [''brew-build''], newerThen = ''3'',
      queryString = ''bash'', doDeepSearch = False, paginationSize = 20, page = 1\<rparr>"
  let ?h = "\<lparr>hit_info = ''i1'', hit_source = ''s1'', greenwaveDecision = ''d1'',
          other_fields = ''''\<rparr>"
  have one: "actLoad (\<lambda>q. Resolved (Response [] (JObject [(''total'', JObject [(''value'', JNumber 0)])]))) ?cq =
     [Dispatch (actIsLoading True), Query (fast_query ?cq),
      Dispatch (actArtList \<lparr>hits = [], error = None,
                              hits_info = JObject [(''total'', JObject [(''value'', JNumber 0)])]\<rparr>)] \<and>
     store_after INITIAL_STATE
       (actLoad (\<lambda>q. Resolved (Response [] (JObject [(''total'', JObject [(''value'', JNumber 0)])]))) ?cq) =
     \<lparr>error = None, artList = [], hits_info = JObject [(''total'', JObject [(''value'', JNumber 0)])],
      isLoading = False, totalHits = JNumber 0, isLoadingExtended = False\<rparr>"
    using slow_query_after_nonempty_fast
      [of "\<lambda>q. Resolved (Response [] (JObject [(''total'', JObject [(''value'', JNumber 0)])]))" ?cq
          "[]" "JObject [(''total'', JObject [(''value'', JNumber 0)])]" INITIAL_STATE]
    by (auto simp: get_hits_info_total_value_def)
  have two: "take 5 (actLoad
       (\<lambda>q. Resolved (Response [?h] (JObject [(''total'', JObject [(''value'', JNumber 1)])]))) ?cq) =
     [Dispatch (actIsLoading True), Query (fast_query ?cq),
      Dispatch (actArtList
        \<lparr>hits = [\<lparr>hit_info = ''i1'', hit_source = ''s1'', greenwaveDecision = ''d1''\<rparr>],
         error = None, hits_info = JObject [(''total'', JObject [(''value'', JNumber 1)])]\<rparr>),
      Dispatch (actIsLoadingExtended True), Query (slow_query ?cq)]"
    using slow_query_after_nonempty_fast
      [of "\<lambda>q. Resolved (Response [?h] (JObject [(''total'', JObject [(''value'', JNumber 1)])]))" ?cq
          "[?h]" "JObject [(''total'', JObject [(''value'', JNumber 1)])]" INITIAL_STATE]
    by (auto simp: shape_hit_def)
  from one two show ?thesis by blast
qed

text \<open>
  C5, as the code has it. The \<open>isLoading\<close> action with \<open>true\<close> sets the flag,
  empties the results, clears the error and also resets \<open>hits_info\<close> to the empty
  object; \<open>totalHits\<close> and \<open>isLoadingExtended\<close> keep their values.
\<close>

theorem isLoading_true_frame:
  "artifactsReducer s (actIsLoading True) =
     s\<lparr>isLoading := True, hits_info := JObject [], artList := [], error := None\<rparr> \<and>
   isLoading (artifactsReducer s (actIsLoading True)) = True \<and>
   artList (artifactsReducer s (actIsLoading True)) = [] \<and>
   error (artifactsReducer s (actIsLoading True)) = None \<and>
   hits_info (artifactsReducer s (actIsLoading True)) = JObject [] \<and>
   totalHits (artifactsReducer s (actIsLoading True)) = totalHits s \<and>
   isLoadingExtended (artifactsReducer s (actIsLoading True)) = isLoadingExtended s"
  by simp

theorem isLoading_true_frame_witness:
  "artifactsReducer
     \<lparr>error = Some ''old'', artList = [\<lparr>hit_info = ''i'', hit_source = ''s'',
        greenwaveDecision = ''d''\<rparr>],
      hits_info = JObject [(''total'', JObject [(''value'', JNumber 5)])], isLoading = False,
      totalHits = JNumber 5, isLoadingExtended = True\<rparr> (actIsLoading True) =
     \<lparr>error = None, artList = [], hits_info = JObject [], isLoading = True,
      totalHits = JNumber 5, isLoadingExtended = True\<rparr>"
  using isLoading_true_frame
    [of "\<lparr>error = Some ''old'', artList = [\<lparr>hit_info = ''i'', hit_source = ''s'',
        greenwaveDecision = ''d''\<rparr>],
      hits_info = JObject [(''total'', JObject [(''value'', JNumber 5)])], isLoading = False,
      totalHits = JNumber 5, isLoadingExtended = True\<rparr>"]
  by simp

text \<open>
  C5 as the specification words it fails: the action changes a field beyond the flag,
  the results and the error. A state that holds the total of the last response in
  \<open>hits_info\<close> loses it.
\<close>

theorem isLoading_true_hits_info_counterexample:
  "hits_info (artifactsReducer
     \<lparr>error = None, artList = [], hits_info = JObject [(''total'', JObject [(''value'', JNumber 5)])],
      isLoading = False, totalHits = JNumber 5, isLoadingExtended = False\<rparr> (actIsLoading True)) \<noteq>
   hits_info
     \<lparr>error = None, artList = [], hits_info = JObject [(''total'', JObject [(''value'', JNumber 5)])],
      isLoading = False, totalHits = JNumber 5, isLoadingExtended = False\<rparr>"
  by simp

text \<open>
  C6. An \<open>artList\<close> action sets both loading flags to false, the results to the hits
  of the payload, the total to the count of the payload and the error to that of the
  payload, whatever the state was. A payload shaped from a response has no error, and a
  load always ends with both flags false.
\<close>

theorem artList_publish:
  "artifactsReducer s (actArtList p) =
     \<lparr>error = artListPayload.error p, artList = hits p,
      hits_info = artListPayload.hits_info p, isLoading = False,
      totalHits = get_hits_info_total_value p (JNumber 0), isLoadingExtended = False\<rparr> \<and>
   (responseToState r = Inr p \<longrightarrow> error (artifactsReducer s (actArtList p)) = None) \<and>
   isLoading (store_after s (actLoad client cq)) = False \<and>
   isLoadingExtended (store_after s (actLoad client cq)) = False"
proof -
  have "error (artifactsReducer s (actArtList p)) = None" if "responseToState r = Inr p"
    using that by (cases r) (auto simp: responseToState_def)
  then show ?thesis
    using artList_publish_state [of s p] flags_after_actLoad [of s client cq] by simp
qed

theorem artList_publish_witness:
  "artifactsReducer
     \<lparr>error = Some ''old'', artList = [], hits_info = JObject [], isLoading = True,
      totalHits = JNumber 3, isLoadingExtended = True\<rparr>
     (actArtList
       \<lparr>hits = [\<lparr>hit_info = ''i1'', hit_source = ''s1'', greenwaveDecision = ''d1''\<rparr>],
        error = None, hits_info = JObject [(''total'', JObject [(''value'', JNumber 10)])]\<rparr>) =
     \<lparr>error = None,
      artList = [\<lparr>hit_info = ''i1'', hit_source = ''s1'', greenwaveDecision = ''d1''\<rparr>],
      hits_info = JObject [(''total'', JObject [(''value'', JNumber 10)])], isLoading = False,
      totalHits = JNumber 10, isLoadingExtended = False\<rparr>"
proof -
  let ?r = "Response [\<lparr>hit_info = ''i1'', hit_source = ''s1'', greenwaveDecision = ''d1'',
                       other_fields = ''''\<rparr>] (JObject [(''total'', JObject [(''value'', JNumber 10)])])"
  let ?p = "\<lparr>hits = [\<lparr>hit_info = ''i1'', hit_source = ''s1'', greenwaveDecision = ''d1''\<rparr>],
        error = None, hits_info = JObject [(''total'', JObject [(''value'', JNumber 10)])]\<rparr>"
  have r: "responseToState ?r = Inr ?p"
    by (simp add: responseToState_def shape_hit_def)
  show ?thesis
    using artList_publish
      [of "\<lparr>error = Some ''old'', artList = [], hits_info = JObject [],
            isLoading = True, totalHits = JNumber 3, isLoadingExtended = True\<rparr>" ?p ?r] r
    by (simp add: get_hits_info_total_value_def)
qed

text \<open>
  C7. The \<open>isLoadingExtended\<close> action sets its flag and leaves every other field as
  it was. Dispatched with \<open>true\<close> after the publish of the fast stage, it keeps the
  published results, total and error, and \<open>isLoading\<close> stays false.
\<close>

theorem isLoadingExtended_frame:
  "artifactsReducer s (actIsLoadingExtended b) = s\<lparr>isLoadingExtended := b\<rparr> \<and>
   isLoadingExtended (artifactsReducer s (actIsLoadingExtended b)) = b \<and>
   artList (artifactsReducer s (actIsLoadingExtended b)) = artList s \<and>
   totalHits (artifactsReducer s (actIsLoadingExtended b)) = totalHits s \<and>
   error (artifactsReducer s (actIsLoadingExtended b)) = error s \<and>
   isLoading (artifactsReducer s (actIsLoadingExtended b)) = isLoading s \<and>
   hits_info (artifactsReducer s (actIsLoadingExtended b)) = hits_info s \<and>
   artifactsReducer (artifactsReducer s (actArtList p)) (actIsLoadingExtended True) =
     \<lparr>error = artListPayload.error p, artList = hits p,
      hits_info = artListPayload.hits_info p, isLoading = False,
      totalHits = get_hits_info_total_value p (JNumber 0), isLoadingExtended = True\<rparr>"
  by (simp add: artList_publish_state)

theorem isLoadingExtended_frame_witness:
  "artifactsReducer
     \<lparr>error = None,
      artList = [\<lparr>hit_info = ''i1'', hit_source = ''s1'', greenwaveDecision = ''d1''\<rparr>],
      hits_info = JObject [(''total'', JObject [(''value'', JNumber 10)])], isLoading = False,
      totalHits = JNumber 10, isLoadingExtended = False\<rparr> (actIsLoadingExtended True) =
     \<lparr>error = None,
      artList = [\<lparr>hit_info = ''i1'', hit_source = ''s1'', greenwaveDecision = ''d1''\<rparr>],
      hits_info = JObject [(''total'', JObject [(''value'', JNumber 10)])], isLoading = False,
      totalHits = JNumber 10, isLoadingExtended = True\<rparr>"
  using isLoadingExtended_frame
    [of "\<lparr>error = None,
      artList = [\<lparr>hit_info = ''i1'', hit_source = ''s1'', greenwaveDecision = ''d1''\<rparr>],
      hits_info = JObject [(''total'', JObject [(''value'', JNumber 10)])], isLoading = False,
      totalHits = JNumber 10, isLoadingExtended = False\<rparr>" True]
  by simp

text \<open>
  C8. When a query of the load is rejected, the error of the store is the message of the
  thrown value if this is an error object, and else the string that \<open>_.toString\<close>
  computes from the value. The \<open>catch\<close> block publishes this one string and nothing
  else about the failure.
\<close>

theorem error_text_of_failure:
  "(client (fast_query cq) = Rejected e \<or>
    (\<exists>hs hi. client (fast_query cq) = Resolved (Response hs hi) \<and> hs \<noteq> [] \<and>
       client (slow_query cq) = Rejected e) \<longrightarrow>
      error (store_after s (actLoad client cq)) =
        Some (case e of ErrorObject n m \<Rightarrow> m | _ \<Rightarrow> toString e)) \<and>
   catch_block e =
     [Dispatch (actArtList
        \<lparr>hits = [], error = Some (if isError e then message e else toString e),
         hits_info = JObject [(''total'', JObject [(''value'', JNumber 0)])]\<rparr>)]"
proof -
  have text_eq: "(if isError e then message e else toString e) =
      (case e of ErrorObject n m \<Rightarrow> m | _ \<Rightarrow> toString e)"
    by (cases e) simp_all
  have a: "error (store_after s (actLoad client cq)) =
      Some (if isError e then message e else toString e)"
    if "client (fast_query cq) = Rejected e"
    using that store_after_fast_rejected [of client cq e s] by simp
  have b: "error (store_after s (actLoad client cq)) =
      Some (if isError e then message e else toString e)"
    if "\<exists>hs hi. client (fast_query cq) = Resolved (Response hs hi) \<and> hs \<noteq> [] \<and>
       client (slow_query cq) = Rejected e"
  proof -
    from that obtain hs hi where
      "client (fast_query cq) = Resolved (Response hs hi)" "hs \<noteq> []"
      "client (slow_query cq) = Rejected e"
      by blast
    then show ?thesis
      using store_after_slow_rejected [of client cq hs hi e s] by simp
  qed
  have c: "catch_block e =
     [Dispatch (actArtList
        \<lparr>hits = [], error = Some (if isError e then message e else toString e),
         hits_info = JObject [(''total'', JObject [(''value'', JNumber 0)])]\<rparr>)]"
    by (simp add: catch_block_def)
  from a b c show ?thesis unfolding text_eq by blast
qed

text \<open>
  A rejected fast query: with an error object, with \<open>undefined\<close>, with negative
  zero, and with the array \<open>[null, 1]\<close>.
\<close>

theorem error_text_of_failure_witness:
  "error (store_after INITIAL_STATE (actLoad
     (\<lambda>q. Rejected (ErrorObject ''ApolloError'' ''Response not successful''))
     \<lparr>sortBy = ''taskId'', artTypes = [''brew-build''], newerThen = ''3'',
      queryString = ''bash'', doDeepSearch = False, paginationSize = 20, page = 1\<rparr>)) =
     Some ''Response not successful'' \<and>
   error (store_after INITIAL_STATE (actLoad
     (\<lambda>q. Rejected UndefinedValue)
     \<lparr>sortBy = ''taskId'', artTypes = [''brew-build''], newerThen = ''3'',
      queryString = ''bash'', doDeepSearch = False, paginationSize = 20, page = 1\<rparr>)) =
     Some [] \<and>
   error (store_after INITIAL_STATE (actLoad
     (\<lambda>q. Rejected (NumberValue NegZero))
     \<lparr>sortBy = ''taskId'', artTypes = [''brew-build''], newerThen = ''3'',
      queryString = ''bash'', doDeepSearch = False, paginationSize = 20, page = 1\<rparr>)) =
     Some ''-0'' \<and>
   error (store_after INITIAL_STATE (actLoad
     (\<lambda>q. Rejected (ArrayValue [NullValue, NumberValue (SafeInteger 1)]))
     \<lparr>sortBy = ''taskId'', artTypes = [''brew-build''], newerThen = ''3'',
      queryString = ''bash'', doDeepSearch = False, paginationSize = 20, page = 1\<rparr>)) =
     Some ''null,1''"
proof -
  let ?cq = "\<lparr>sortBy = ''taskId'', artTypes = [''brew-build''], newerThen = ''3'',
      queryString = ''bash'', doDeepSearch = False, paginationSize = 20, page = 1\<rparr>"
  have one: "error (store_after INITIAL_STATE (actLoad
       (\<lambda>q. Rejected (ErrorObject ''ApolloError'' ''Response not successful'')) ?cq)) =
     Some ''Response not successful''"
    using error_text_of_failure
      [of "\<lambda>q. Rejected (ErrorObject ''ApolloError'' ''Response not successful'')" ?cq
          "ErrorObject ''ApolloError'' ''Response not successful''" INITIAL_STATE]
    by simp
  have two: "error (store_after INITIAL_STATE (actLoad (\<lambda>q. Rejected UndefinedValue) ?cq)) =
     Some []"
    using error_text_of_failure
      [of "\<lambda>q. Rejected UndefinedValue" ?cq UndefinedValue INITIAL_STATE]
    by (simp add: toString_def)
  have three: "error (store_after INITIAL_STATE (actLoad
       (\<lambda>q. Rejected (NumberValue NegZero)) ?cq)) = Some ''-0''"
    using error_text_of_failure
      [of "\<lambda>q. Rejected (NumberValue NegZero)" ?cq "NumberValue NegZero" INITIAL_STATE]
    by (simp add: toString_def)
  have four: "error (store_after INITIAL_STATE (actLoad
       (\<lambda>q. Rejected (ArrayValue [NullValue, NumberValue (SafeInteger 1)])) ?cq)) =
     Some ''null,1''"
    using error_text_of_failure
      [of "\<lambda>q. Rejected (ArrayValue [NullValue, NumberValue (SafeInteger 1)])" ?cq
          "ArrayValue [NullValue, NumberValue (SafeInteger 1)]" INITIAL_STATE]
    by (simp add: toString_def numberToString_def decimal.simps)
  from one two three four show ?thesis by blast
qed

text \<open>
  C10, as the code has it. After an \<open>artList\<close> action, \<open>totalHits\<close> is the value
  at \<open>hits_info.total.value\<close> of the payload when there is one, whatever it is: the
  number when it is a number. It is 0 when the path gives \<open>undefined\<close>, because
  \<open>hits_info\<close>, its \<open>total\<close> or the \<open>value\<close> of that is missing.
  So \<open>totalHits\<close> is never \<open>undefined\<close>.
\<close>

theorem totalHits_of_payload:
  "(property (property (artListPayload.hits_info p) ''total'') ''value'' = v \<and>
    v \<noteq> JUndefined \<longrightarrow>
      totalHits (artifactsReducer s (actArtList p)) = v) \<and>
   (property (property (artListPayload.hits_info p) ''total'') ''value'' = JNumber n \<longrightarrow>
      totalHits (artifactsReducer s (actArtList p)) = JNumber n) \<and>
   (property (property (artListPayload.hits_info p) ''total'') ''value'' = JUndefined \<longrightarrow>
      totalHits (artifactsReducer s (actArtList p)) = JNumber 0) \<and>
   totalHits (artifactsReducer s (actArtList p)) \<noteq> JUndefined"
proof -
  have tot: "totalHits (artifactsReducer s (actArtList p)) =
      (if property (property (artListPayload.hits_info p) ''total'') ''value'' = JUndefined
       then JNumber 0
       else property (property (artListPayload.hits_info p) ''total'') ''value'')"
    by (simp add: get_hits_info_total_value_def baseGet_total_value)
  show ?thesis unfolding tot by auto
qed

text \<open>
  A payload that reports 10 matches, one whose \<open>hits_info\<close> is the empty object, and
  one without \<open>hits_info\<close>.
\<close>

theorem totalHits_of_payload_witness:
  "totalHits (artifactsReducer INITIAL_STATE
     (actArtList \<lparr>hits = [], error = None,
                   hits_info = JObject [(''total'', JObject [(''value'', JNumber 10)])]\<rparr>)) =
     JNumber 10 \<and>
   totalHits (artifactsReducer
     \<lparr>error = None, artList = [], hits_info = JObject [], isLoading = False,
      totalHits = JNumber 7, isLoadingExtended = False\<rparr>
     (actArtList \<lparr>hits = [], error = None, hits_info = JObject []\<rparr>)) = JNumber 0 \<and>
   totalHits (artifactsReducer
     \<lparr>error = None, artList = [], hits_info = JObject [], isLoading = False,
      totalHits = JNumber 7, isLoadingExtended = False\<rparr>
     (actArtList \<lparr>hits = [], error = None, hits_info = JUndefined\<rparr>)) = JNumber 0"
  using totalHits_of_payload
    [where p = "\<lparr>hits = [], error = None,
          hits_info = JObject [(''total'', JObject [(''value'', JNumber 10)])]\<rparr>"
       and v = "JNumber 10" and n = 10 and s = INITIAL_STATE]
    totalHits_of_payload
    [where p = "\<lparr>hits = [], error = None, hits_info = JObject []\<rparr>"
       and v = JUndefined and n = 0
       and s = "\<lparr>error = None, artList = [], hits_info = JObject [], isLoading = False,
          totalHits = JNumber 7, isLoadingExtended = False\<rparr>"]
    totalHits_of_payload
    [where p = "\<lparr>hits = [], error = None, hits_info = JUndefined\<rparr>"
       and v = JUndefined and n = 0
       and s = "\<lparr>error = None, artList = [], hits_info = JObject [], isLoading = False,
          totalHits = JNumber 7, isLoadingExtended = False\<rparr>"]
  by simp

text \<open>
  C10 as the specification words it fails: \<open>totalHits\<close> is not a number for every
  payload. A response whose \<open>hits_info.total.value\<close> is \<open>null\<close> is not
  \<open>undefined\<close> at the path, so \<open>_.get\<close> returns the \<open>null\<close> and not the
  default, and the store holds \<open>null\<close> as the total.
\<close>

theorem totalHits_null_counterexample:
  "totalHits (artifactsReducer INITIAL_STATE
     (actArtList \<lparr>hits = [], error = None,
                   hits_info = JObject [(''total'', JObject [(''value'', JNull)])]\<rparr>)) =
     JNull"
  by (simp add: get_hits_info_total_value_def)

end
